theory Spec2Isabelle
  imports Main
begin

section \<open>The authentication routes of fast\_api\_app (routes/auth.py)\<close>

text \<open>
  The five route handlers \<open>signup\<close>, \<open>login\<close>, \<open>confirmed_email\<close>, \<open>request_email\<close>
  and \<open>refresh_token\<close> are embedded as functions from the state before the request to the
  outcome of the request and the state after it. The outcome is a sum: \<open>Inl\<close> carries the
  exception that leaves the handler, \<open>Inr\<close> the dictionary it returns.
\<close>

subsection \<open>Data\<close>

text \<open>
  Exceptions that can leave a handler: the \<open>HTTPException\<close> the routes raise themselves
  (status code and detail), and the \<open>AttributeError\<close> Python raises when an attribute of
  \<open>None\<close> is read.
\<close>

datatype exn = HTTPException nat string | AttributeError

text \<open>The ORM user object, with the attributes the routes read and write.\<close>

record user =
  email :: string
  username :: string
  password :: string
  confirmed :: bool
  refresh_token :: "string option"

text \<open>The body of a signup request (\<open>UserModel\<close>).\<close>

record user_model =
  body_username :: string
  body_email :: string
  body_password :: string

text \<open>
  A queued background task: the routes only ever queue \<open>send_email\<close> with the address,
  the user name and the base URL of the request.
\<close>

datatype task = send_email string string string

text \<open>The dictionaries the routes return.\<close>

datatype response =
  UserResponses user string
| TokenModel string string string
| Message string

text \<open>
  \<open>auth_service\<close> (fast\_api\_app.services.auth) is not among the sources. The routes are
  therefore parameterised by it: a value of this record is the service as it answers
  during one request (its answers depend on the clock and on the salt source, so two
  requests may see two different values). The two decoders raise on a bad token, which
  is the \<open>Inl\<close> case.
\<close>

record auth_service =
  get_password_hash :: "string \<Rightarrow> string"
  verify_password :: "string \<Rightarrow> string \<Rightarrow> bool"
  create_access_token :: "string \<Rightarrow> string"
  create_refresh_token :: "string \<Rightarrow> string"
  decode_refresh_token :: "string \<Rightarrow> exn + string"
  get_email_from_token :: "string \<Rightarrow> exn + string"

text \<open>
  The state a request runs against: the users table, keyed by email, and the queue of
  background tasks.
\<close>

record state =
  db :: "string \<rightharpoonup> user"
  background_tasks :: "task list"

subsection \<open>The user repository\<close>

text \<open>
  Modelled from the spec: fast\_api\_app.repository.users is not among the sources. The
  spec gives its contract as \<open>find_by_email(email) -> User | absent\<close>,
  \<open>create(new_user_data) -> User\<close>, \<open>set_refresh_token(user, token_or_null)\<close> and
  \<open>mark_confirmed(email)\<close>, with the email unique, \<open>confirmed\<close> starting false and
  \<open>refresh_token\<close> nullable.
\<close>

definition get_user_by_email :: "string \<Rightarrow> (string \<rightharpoonup> user) \<Rightarrow> user option" where
  "get_user_by_email e d = d e"

definition create_user :: "user_model \<Rightarrow> (string \<rightharpoonup> user) \<Rightarrow> user \<times> (string \<rightharpoonup> user)" where
  "create_user body d =
     (let new_user = \<lparr>email = body_email body, username = body_username body,
                       password = body_password body, confirmed = False,
                       refresh_token = None\<rparr>
      in (new_user, d(body_email body \<mapsto> new_user)))"

definition update_token :: "user \<Rightarrow> string option \<Rightarrow> (string \<rightharpoonup> user) \<Rightarrow> (string \<rightharpoonup> user)" where
  "update_token u tok d = d(email u \<mapsto> u\<lparr>refresh_token := tok\<rparr>)"

text \<open>
  \<open>repository_users.confirmed_email\<close>; the route of the same name keeps the plain name.
  The route calls it only for an email it has just looked up successfully.
\<close>

definition repository_confirmed_email :: "string \<Rightarrow> (string \<rightharpoonup> user) \<Rightarrow> (string \<rightharpoonup> user)" where
  "repository_confirmed_email e d =
     (case d e of None \<Rightarrow> d | Some u \<Rightarrow> d(e \<mapsto> u\<lparr>confirmed := True\<rparr>))"

text \<open>The table is keyed by email: the row stored under an address carries that address.\<close>

definition wf_db :: "(string \<rightharpoonup> user) \<Rightarrow> bool" where
  "wf_db d = (\<forall>e u. d e = Some u \<longrightarrow> email u = e)"

subsection \<open>The routes\<close>

text \<open>\<open>signup\<close>, lines 30 to 36.\<close>

definition signup :: "auth_service \<Rightarrow> user_model \<Rightarrow> string \<Rightarrow> state \<Rightarrow> (exn + response) \<times> state" where
  "signup svc body base_url st =
     (case get_user_by_email (body_email body) (db st) of
        Some exist_user \<Rightarrow> (Inl (HTTPException 409 ''Account already exists''), st)
      | None \<Rightarrow>
          (let body' = body\<lparr>body_password := get_password_hash svc (body_password body)\<rparr>;
               (new_user, d') = create_user body' (db st)
           in (Inr (UserResponses new_user ''User successfully created''),
               st\<lparr>db := d',
                  background_tasks := background_tasks st @
                    [send_email (email new_user) (username new_user) base_url]\<rparr>)))"

text \<open>\<open>login\<close>, lines 51 to 62; the form's \<open>username\<close> field carries the email.\<close>

definition login :: "auth_service \<Rightarrow> string \<Rightarrow> string \<Rightarrow> state \<Rightarrow> (exn + response) \<times> state" where
  "login svc form_username form_password st =
     (case get_user_by_email form_username (db st) of
        None \<Rightarrow> (Inl (HTTPException 401 ''Invalid email''), st)
      | Some u \<Rightarrow>
          if \<not> confirmed u then (Inl (HTTPException 401 ''Email not confirmed''), st)
          else if \<not> verify_password svc form_password (password u)
            then (Inl (HTTPException 401 ''Invalid password''), st)
          else
            (let access = create_access_token svc (email u);
                 refresh = create_refresh_token svc (email u)
             in (Inr (TokenModel access refresh ''bearer''),
                 st\<lparr>db := update_token u (Some refresh) (db st)\<rparr>)))"

text \<open>\<open>confirmed_email\<close>, lines 80 to 87.\<close>

definition confirmed_email :: "auth_service \<Rightarrow> string \<Rightarrow> state \<Rightarrow> (exn + response) \<times> state" where
  "confirmed_email svc token st =
     (case get_email_from_token svc token of
        Inl err \<Rightarrow> (Inl err, st)
      | Inr e \<Rightarrow>
          (case get_user_by_email e (db st) of
             None \<Rightarrow> (Inl (HTTPException 400 ''Verification error''), st)
           | Some u \<Rightarrow>
               if confirmed u then (Inr (Message ''Your email is already confirmed''), st)
               else (Inr (Message ''Email confirmed''),
                     st\<lparr>db := repository_confirmed_email e (db st)\<rparr>)))"

text \<open>
  \<open>request_email\<close>, lines 107 to 113. Line 109 reads \<open>user.confirmed\<close> before line 111
  tests \<open>user\<close>, so a failed lookup raises \<open>AttributeError\<close> at line 109; once line 109 has
  passed, \<open>user\<close> is an object and the test of line 111 succeeds.
\<close>

definition request_email :: "string \<Rightarrow> string \<Rightarrow> state \<Rightarrow> (exn + response) \<times> state" where
  "request_email body_mail base_url st =
     (case get_user_by_email body_mail (db st) of
        None \<Rightarrow> (Inl AttributeError, st)
      | Some u \<Rightarrow>
          if confirmed u then (Inr (Message ''Your email is already confirmed''), st)
          else (Inr (Message ''Check your email for confirmation.''),
                st\<lparr>background_tasks := background_tasks st @
                     [send_email (email u) (username u) base_url]\<rparr>))"

text \<open>
  \<open>refresh_token\<close>, lines 129 to 139 (the route; the plain name is the user's attribute).
  Line 132 reads \<open>user.refresh_token\<close> with no test of \<open>user\<close>, so a failed lookup raises
  \<open>AttributeError\<close> there.
\<close>

definition refresh_token_route :: "auth_service \<Rightarrow> string \<Rightarrow> state \<Rightarrow> (exn + response) \<times> state" where
  "refresh_token_route svc token st =
     (case decode_refresh_token svc token of
        Inl err \<Rightarrow> (Inl err, st)
      | Inr e \<Rightarrow>
          (case get_user_by_email e (db st) of
             None \<Rightarrow> (Inl AttributeError, st)
           | Some u \<Rightarrow>
               if refresh_token u \<noteq> Some token
               then (Inl (HTTPException 401 ''Invalid refresh token''),
                     st\<lparr>db := update_token u None (db st)\<rparr>)
               else
                 (let access = create_access_token svc e;
                      refresh = create_refresh_token svc e
                  in (Inr (TokenModel access refresh ''bearer''),
                      st\<lparr>db := update_token u (Some refresh) (db st)\<rparr>))))"

subsection \<open>Sequences of requests\<close>

datatype request =
  Signup user_model string
| Login string string
| Confirm string
| Request_email string string
| Refresh string

fun handle :: "auth_service \<Rightarrow> request \<Rightarrow> state \<Rightarrow> (exn + response) \<times> state" where
  "handle svc (Signup body base_url) st = signup svc body base_url st"
| "handle svc (Login u p) st = login svc u p st"
| "handle svc (Confirm token) st = confirmed_email svc token st"
| "handle svc (Request_email e base_url) st = request_email e base_url st"
| "handle svc (Refresh token) st = refresh_token_route svc token st"

text \<open>Each request of a run comes with the service as it answers at that moment.\<close>

fun run :: "(auth_service \<times> request) list \<Rightarrow> state \<Rightarrow> state" where
  "run [] st = st"
| "run ((svc, r) # rs) st = run rs (snd (handle svc r st))"

subsection \<open>Concrete instances\<close>

text \<open>
  The properties below hold for every service. For their closed instances a stand-in
  service is fixed here. \<open>stamp\<close> stands for the moment of issue, so that tokens issued
  at different moments differ. A refresh token is \<open>R\<close>, the stamp, then
  the subject; a confirmation token is \<open>E\<close> and the subject. When \<open>expired\<close> holds the
  service is asked after every earlier token's lifetime has passed, and both decoders
  reject what they are given.
\<close>

definition service_at :: "char \<Rightarrow> bool \<Rightarrow> auth_service" where
  "service_at stamp expired =
     \<lparr>get_password_hash = (\<lambda>p. ''hash:'' @ p),
      verify_password = (\<lambda>p h. h = ''hash:'' @ p),
      create_access_token = (\<lambda>sub. CHR ''A'' # stamp # sub),
      create_refresh_token = (\<lambda>sub. CHR ''R'' # stamp # sub),
      decode_refresh_token = (\<lambda>tok.
        if expired then Inl (HTTPException 401 ''Could not validate credentials'')
        else (case tok of
                c # s # sub \<Rightarrow>
                  if c = CHR ''R'' then Inr sub
                  else Inl (HTTPException 401 ''Invalid scope for token'')
              | _ \<Rightarrow> Inl (HTTPException 401 ''Could not validate credentials''))),
      get_email_from_token = (\<lambda>tok.
        if expired then Inl (HTTPException 422 ''Invalid token for email verification'')
        else (case tok of
                c # sub \<Rightarrow>
                  if c = CHR ''E'' then Inr sub
                  else Inl (HTTPException 422 ''Invalid token for email verification'')
              | _ \<Rightarrow> Inl (HTTPException 422 ''Invalid token for email verification'')))\<rparr>"

definition alice :: user where
  "alice = \<lparr>email = ''a@x.com'', username = ''alice'', password = ''hash:pw'',
            confirmed = True, refresh_token = None\<rparr>"

definition bob :: user where
  "bob = \<lparr>email = ''b@x.com'', username = ''bob'', password = ''hash:pw'',
          confirmed = False, refresh_token = None\<rparr>"

definition st0 :: state where
  "st0 = \<lparr>db = [''a@x.com'' \<mapsto> alice, ''b@x.com'' \<mapsto> bob], background_tasks = []\<rparr>"

text \<open>The table after \<open>a@x.com\<close> has logged in at moment \<open>1\<close>.\<close>

definition st_logged_in :: state where
  "st_logged_in = \<lparr>db = [''a@x.com'' \<mapsto> alice\<lparr>refresh_token := Some ''R1a@x.com''\<rparr>,
                          ''b@x.com'' \<mapsto> bob],
                    background_tasks = []\<rparr>"

text \<open>The state after \<open>a@x.com\<close> has logged in at moment \<open>1\<close> and again at moment \<open>2\<close>.\<close>

definition after_two_logins :: state where
  "after_two_logins =
     snd (login (service_at CHR ''2'' False) ''a@x.com'' ''pw''
       (snd (login (service_at CHR ''1'' False) ''a@x.com'' ''pw'' st0)))"

text \<open>
  The state after \<open>a@x.com\<close> has logged in twice at the same moment \<open>1\<close>, so that both
  logins were issued the same refresh token.
\<close>

definition after_two_logins_same_moment :: state where
  "after_two_logins_same_moment =
     snd (login (service_at CHR ''1'' False) ''a@x.com'' ''pw''
       (snd (login (service_at CHR ''1'' False) ''a@x.com'' ''pw'' st0)))"

section \<open>Properties\<close>

subsection \<open>The stand-in service and the example states\<close>

lemma wf_db_st0: "wf_db (db st0)"
  by (auto simp: wf_db_def st0_def alice_def bob_def split: if_splits)

lemma db_st0_alice: "db st0 ''a@x.com'' = Some alice"
  by (simp add: st0_def)

lemma db_st0_bob: "db st0 ''b@x.com'' = Some bob"
  by (simp add: st0_def)

lemma db_st0_ghost: "db st0 ''ghost@x.com'' = None"
  by (simp add: st0_def)

lemma wf_db_st_logged_in: "wf_db (db st_logged_in)"
  by (auto simp: wf_db_def st_logged_in_def alice_def bob_def split: if_splits)

lemma db_st_logged_in_alice:
  "db st_logged_in ''a@x.com'' = Some (alice\<lparr>refresh_token := Some ''R1a@x.com''\<rparr>)"
  by (simp add: st_logged_in_def)

lemma decode_example:
  "decode_refresh_token (service_at s False) (CHR ''R'' # t # sub) = Inr sub"
  by (simp add: service_at_def)

lemma create_refresh_example: "create_refresh_token (service_at s x) sub = CHR ''R'' # s # sub"
  by (simp add: service_at_def)

lemma create_access_example: "create_access_token (service_at s x) sub = CHR ''A'' # s # sub"
  by (simp add: service_at_def)

lemma verify_example: "verify_password (service_at s x) p h = (h = ''hash:'' @ p)"
  by (simp add: service_at_def)

subsection \<open>The table stays keyed by email\<close>

lemma wf_db_email: "wf_db d \<Longrightarrow> d e = Some u \<Longrightarrow> email u = e"
  by (simp add: wf_db_def)

lemma wf_db_upd: "wf_db d \<Longrightarrow> email u = e \<Longrightarrow> wf_db (d(e \<mapsto> u))"
  by (simp add: wf_db_def)

lemma wf_db_update_token: "wf_db d \<Longrightarrow> wf_db (update_token u tok d)"
  by (simp add: update_token_def wf_db_upd)

lemma wf_db_repository_confirmed_email: "wf_db d \<Longrightarrow> wf_db (repository_confirmed_email e d)"
  by (auto simp: repository_confirmed_email_def wf_db_def split: option.splits)

lemma wf_db_signup: "wf_db (db st) \<Longrightarrow> wf_db (db (snd (signup svc body base_url st)))"
  by (auto simp: signup_def get_user_by_email_def create_user_def Let_def wf_db_upd split: option.splits)

lemma wf_db_login: "wf_db (db st) \<Longrightarrow> wf_db (db (snd (login svc e p st)))"
  by (auto simp: login_def get_user_by_email_def Let_def wf_db_update_token split: option.splits)

lemma wf_db_confirmed_email: "wf_db (db st) \<Longrightarrow> wf_db (db (snd (confirmed_email svc token st)))"
  by (auto simp: confirmed_email_def get_user_by_email_def wf_db_repository_confirmed_email
      split: option.splits sum.splits)

lemma wf_db_request_email: "wf_db (db st) \<Longrightarrow> wf_db (db (snd (request_email e base_url st)))"
  by (auto simp: request_email_def get_user_by_email_def split: option.splits)

lemma wf_db_refresh_token_route:
  "wf_db (db st) \<Longrightarrow> wf_db (db (snd (refresh_token_route svc token st)))"
  by (auto simp: refresh_token_route_def get_user_by_email_def Let_def wf_db_update_token
      split: option.splits sum.splits)

lemma wf_db_handle: "wf_db (db st) \<Longrightarrow> wf_db (db (snd (handle svc r st)))"
  by (cases r) (simp_all add: wf_db_signup wf_db_login wf_db_confirmed_email
      wf_db_request_email wf_db_refresh_token_route)

subsection \<open>What each route does to the \<open>confirmed\<close> flag of a stored user\<close>

lemma update_token_confirmed:
  assumes "wf_db d" and "d e = Some u" and "d e' = Some v"
  shows "\<exists>u'. update_token v tok d e = Some u' \<and> confirmed u' = confirmed u"
proof (cases "e' = e")
  case True
  with assms have "email v = e" "v = u" by (auto dest: wf_db_email)
  then show ?thesis by (simp add: update_token_def)
next
  case False
  with assms have "email v \<noteq> e" by (auto dest: wf_db_email)
  with assms show ?thesis by (simp add: update_token_def)
qed

lemma signup_confirmed:
  "db st e = Some u \<Longrightarrow> db (snd (signup svc body base_url st)) e = Some u"
  by (auto simp: signup_def get_user_by_email_def create_user_def Let_def split: option.splits)

lemma login_confirmed:
  "wf_db (db st) \<Longrightarrow> db st e = Some u \<Longrightarrow>
   \<exists>u'. db (snd (login svc x p st)) e = Some u' \<and> confirmed u' = confirmed u"
  by (auto simp: login_def get_user_by_email_def Let_def update_token_confirmed split: option.splits)

lemma request_email_confirmed:
  "db st e = Some u \<Longrightarrow> db (snd (request_email x base_url st)) e = Some u"
  by (auto simp: request_email_def get_user_by_email_def split: option.splits)

lemma refresh_token_route_confirmed:
  "wf_db (db st) \<Longrightarrow> db st e = Some u \<Longrightarrow>
   \<exists>u'. db (snd (refresh_token_route svc token st)) e = Some u' \<and> confirmed u' = confirmed u"
  by (auto simp: refresh_token_route_def get_user_by_email_def Let_def update_token_confirmed
      split: option.splits sum.splits)

lemma confirmed_email_confirmed:
  "db st e = Some u \<Longrightarrow>
   \<exists>u'. db (snd (confirmed_email svc token st)) e = Some u' \<and> (confirmed u \<longrightarrow> confirmed u')"
  by (auto simp: confirmed_email_def get_user_by_email_def repository_confirmed_email_def
      split: option.splits sum.splits)

lemma handle_confirmed:
  assumes "wf_db (db st)" and "db st e = Some u"
  shows "\<exists>u'. db (snd (handle svc r st)) e = Some u' \<and> (confirmed u \<longrightarrow> confirmed u')
           \<and> ((\<forall>token. r \<noteq> Confirm token) \<longrightarrow> confirmed u' = confirmed u)"
proof (cases r)
  case (Signup body base_url)
  with assms show ?thesis by (simp add: signup_confirmed)
next
  case (Login x p)
  with login_confirmed [OF assms, of svc x p] show ?thesis by auto
next
  case (Confirm token)
  with confirmed_email_confirmed [OF assms(2), of svc token] show ?thesis by auto
next
  case (Request_email x base_url)
  with assms show ?thesis by (simp add: request_email_confirmed)
next
  case (Refresh token)
  with refresh_token_route_confirmed [OF assms, of svc token] show ?thesis by auto
qed

lemma run_confirmed:
  "wf_db (db st) \<Longrightarrow> db st e = Some u \<Longrightarrow> confirmed u \<Longrightarrow>
   \<exists>u'. db (run rs st) e = Some u' \<and> confirmed u'"
proof (induction rs arbitrary: st u)
  case Nil
  then show ?case by simp
next
  case (Cons a rs)
  obtain svc r where a: "a = (svc, r)" by (cases a)
  from handle_confirmed [OF Cons.prems(1,2), of svc r] Cons.prems(3)
  obtain u' where u': "db (snd (handle svc r st)) e = Some u'" "confirmed u'" by auto
  from Cons.IH [OF wf_db_handle [OF Cons.prems(1)] u'] a show ?case by simp
qed

subsection \<open>The successful and the stale path of login and refresh\<close>

lemma login_success:
  assumes "wf_db (db st)" and "db st e = Some u" and "confirmed u"
    and "verify_password svc p (password u)"
  shows "login svc e p st =
           (Inr (TokenModel (create_access_token svc e) (create_refresh_token svc e) ''bearer''),
            st\<lparr>db := (db st)(e \<mapsto> u\<lparr>refresh_token := Some (create_refresh_token svc e)\<rparr>)\<rparr>)"
proof -
  from assms(1,2) have "email u = e" by (rule wf_db_email)
  with assms show ?thesis
    by (simp add: login_def get_user_by_email_def update_token_def Let_def)
qed

lemma refresh_success:
  assumes "wf_db (db st)" and "db st e = Some u" and "refresh_token u = Some token"
    and "decode_refresh_token svc token = Inr e"
  shows "refresh_token_route svc token st =
           (Inr (TokenModel (create_access_token svc e) (create_refresh_token svc e) ''bearer''),
            st\<lparr>db := (db st)(e \<mapsto> u\<lparr>refresh_token := Some (create_refresh_token svc e)\<rparr>)\<rparr>)"
proof -
  from assms(1,2) have "email u = e" by (rule wf_db_email)
  with assms show ?thesis
    by (simp add: refresh_token_route_def get_user_by_email_def update_token_def Let_def)
qed

lemma refresh_mismatch:
  assumes "wf_db (db st)" and "db st e = Some u" and "refresh_token u \<noteq> Some token"
    and "decode_refresh_token svc token = Inr e"
  shows "refresh_token_route svc token st =
           (Inl (HTTPException 401 ''Invalid refresh token''),
            st\<lparr>db := (db st)(e \<mapsto> u\<lparr>refresh_token := None\<rparr>)\<rparr>)"
proof -
  from assms(1,2) have "email u = e" by (rule wf_db_email)
  with assms show ?thesis
    by (simp add: refresh_token_route_def get_user_by_email_def update_token_def)
qed

lemma refresh_decode_error:
  "decode_refresh_token svc token = Inl err \<Longrightarrow> refresh_token_route svc token st = (Inl err, st)"
  by (simp add: refresh_token_route_def)

lemma request_email_unregistered:
  "db st e = None \<Longrightarrow> request_email e base_url st = (Inl AttributeError, st)"
  by (simp add: request_email_def get_user_by_email_def)

subsection \<open>Request confirmation for an unknown email\<close>

text \<open>
  C1 asks that request confirmation for an unregistered email completes and returns the
  generic "Check your email for confirmation." message. The route does not: for the
  unregistered address \<open>ghost@x.com\<close> it ends in \<open>AttributeError\<close> (line 109 reads
  \<open>user.confirmed\<close> of \<open>None\<close>), with the state unchanged and no message returned.
\<close>

theorem request_email_unknown_email_faults:
  "request_email ''ghost@x.com'' ''http://host/'' st0 = (Inl AttributeError, st0)"
  by (simp add: request_email_unregistered db_st0_ghost)

subsection \<open>Refresh with a stale token\<close>

text \<open>
  C2: when the presented token decodes as a refresh token for a stored user and is not
  the value stored on that user (another token, or none), the route fails with 401
  "Invalid refresh token", and the state it leaves behind has the user's stored refresh
  token set to \<open>None\<close>; nothing else changes.
\<close>

theorem refresh_stale_clears_then_fails:
  assumes "decode_refresh_token svc token = Inr e"
    and "wf_db (db st)"
    and "db st e = Some u"
    and "refresh_token u \<noteq> Some token"
  shows "refresh_token_route svc token st =
           (Inl (HTTPException 401 ''Invalid refresh token''),
            st\<lparr>db := (db st)(e \<mapsto> u\<lparr>refresh_token := None\<rparr>)\<rparr>)"
  using assms by (simp add: refresh_mismatch)

text \<open>
  An instance: \<open>a@x.com\<close> has \<open>R1a@x.com\<close> stored and presents the older \<open>R0a@x.com\<close>.
\<close>

theorem refresh_stale_clears_then_fails_witness:
  "refresh_token_route (service_at CHR ''2'' False) ''R0a@x.com'' st_logged_in =
     (Inl (HTTPException 401 ''Invalid refresh token''),
      st_logged_in\<lparr>db := (db st_logged_in)(''a@x.com'' \<mapsto> alice\<lparr>refresh_token := None\<rparr>)\<rparr>)"
proof -
  have d: "decode_refresh_token (service_at CHR ''2'' False) ''R0a@x.com'' = Inr ''a@x.com''"
    by (rule decode_example)
  have s: "refresh_token (alice\<lparr>refresh_token := Some ''R1a@x.com''\<rparr>) \<noteq> Some ''R0a@x.com''"
    by simp
  from refresh_stale_clears_then_fails [OF d wf_db_st_logged_in db_st_logged_in_alice s]
  show ?thesis by simp
qed

subsection \<open>Login failures for an unknown email and for a wrong password\<close>

text \<open>
  C3 as stated, that the two failures cannot be told apart, does not hold: the exception
  for the unregistered \<open>ghost@x.com\<close> differs from the one for the registered, confirmed
  \<open>a@x.com\<close> with a wrong password.
\<close>

theorem login_failures_distinguishable:
  "fst (login (service_at CHR ''1'' False) ''ghost@x.com'' ''pw'' st0)
     \<noteq> fst (login (service_at CHR ''1'' False) ''a@x.com'' ''wrong'' st0)"
  by (simp add: login_def get_user_by_email_def st0_def alice_def service_at_def)

text \<open>
  C3 as amended: for an unregistered email and for a registered, confirmed user with a
  wrong password login fails with the same status 401 and leaves the state unchanged,
  but the detail differs: "Invalid email" for the first, "Invalid password" for the
  second.
\<close>

theorem login_failures_same_status:
  assumes "db st e = None" and "db st e' = Some u" and "confirmed u"
    and "\<not> verify_password svc p' (password u)"
  shows "login svc e p st = (Inl (HTTPException 401 ''Invalid email''), st)
       \<and> login svc e' p' st = (Inl (HTTPException 401 ''Invalid password''), st)"
  using assms by (simp add: login_def get_user_by_email_def)

text \<open>
  An instance: the unregistered \<open>ghost@x.com\<close> and \<open>a@x.com\<close> with the password \<open>wrong\<close>.
\<close>

theorem login_failures_same_status_witness:
  "login (service_at CHR ''1'' False) ''ghost@x.com'' ''pw'' st0
     = (Inl (HTTPException 401 ''Invalid email''), st0)
   \<and> login (service_at CHR ''1'' False) ''a@x.com'' ''wrong'' st0
     = (Inl (HTTPException 401 ''Invalid password''), st0)"
proof -
  have c: "confirmed alice" by (simp add: alice_def)
  have v: "\<not> verify_password (service_at CHR ''1'' False) ''wrong'' (password alice)"
    by (simp add: verify_example alice_def)
  from login_failures_same_status [OF db_st0_ghost db_st0_alice c v]
  show ?thesis .
qed

subsection \<open>A refresh with the token of the first of two logins\<close>

text \<open>
  C4 as stated, that after two logins a refresh with the first login's token always fails
  with the stored token cleared, does not hold, in two ways. First, \<open>a@x.com\<close> logs in at
  moments \<open>1\<close> and \<open>2\<close> and presents the first token once the decoder no longer accepts it:
  the route fails with the decoder's exception at line 130, before the comparison of
  line 132, and the token of the second login stays stored. Second, \<open>a@x.com\<close> logs in
  twice at the same moment, so that the service issues the same string twice: the second
  login stores the value the first one returned, and a refresh that presents it is
  accepted and returns a new pair.
\<close>

theorem first_token_not_always_invalidated:
  "fst (login (service_at CHR ''1'' False) ''a@x.com'' ''pw'' st0)
     = Inr (TokenModel ''A1a@x.com'' ''R1a@x.com'' ''bearer'')
   \<and> fst (login (service_at CHR ''2'' False) ''a@x.com'' ''pw''
        (snd (login (service_at CHR ''1'' False) ''a@x.com'' ''pw'' st0)))
     = Inr (TokenModel ''A2a@x.com'' ''R2a@x.com'' ''bearer'')
   \<and> refresh_token_route (service_at CHR ''3'' True) ''R1a@x.com'' after_two_logins
     = (Inl (HTTPException 401 ''Could not validate credentials''), after_two_logins)
   \<and> db after_two_logins ''a@x.com'' = Some (alice\<lparr>refresh_token := Some ''R2a@x.com''\<rparr>)
   \<and> fst (login (service_at CHR ''1'' False) ''a@x.com'' ''pw''
        (snd (login (service_at CHR ''1'' False) ''a@x.com'' ''pw'' st0)))
     = Inr (TokenModel ''A1a@x.com'' ''R1a@x.com'' ''bearer'')
   \<and> fst (refresh_token_route (service_at CHR ''2'' False) ''R1a@x.com''
        after_two_logins_same_moment)
     = Inr (TokenModel ''A2a@x.com'' ''R2a@x.com'' ''bearer'')"
  by (simp add: after_two_logins_def after_two_logins_same_moment_def login_def
      refresh_token_route_def get_user_by_email_def update_token_def st0_def alice_def
      service_at_def Let_def)

text \<open>
  C4 as amended: for a stored, confirmed user, two successive logins with a password that
  verifies each succeed, and each stores the refresh token it has just issued in place
  of the one stored before. A refresh that then presents the token of the first login
  \<^item> fails with 401 "Invalid refresh token" and leaves the user's stored refresh token
    \<open>None\<close>, when the token decodes as a refresh token for the user and differs from the
    token of the second login;
  \<^item> succeeds, returning and storing a newly issued pair, when the token decodes as a
    refresh token for the user and the second login was issued the same token;
  \<^item> fails with the decoder's own exception and leaves the state as the second login
    left it, when the decoder rejects the token.
\<close>

theorem refresh_after_second_login:
  assumes "wf_db (db st)" and "db st e = Some u" and "confirmed u"
    and "verify_password svc1 p1 (password u)"
    and "verify_password svc2 p2 (password u)"
  shows "login svc1 e p1 st =
           (Inr (TokenModel (create_access_token svc1 e) (create_refresh_token svc1 e) ''bearer''),
            st\<lparr>db := (db st)(e \<mapsto> u\<lparr>refresh_token := Some (create_refresh_token svc1 e)\<rparr>)\<rparr>)
       \<and> login svc2 e p2 (snd (login svc1 e p1 st)) =
           (Inr (TokenModel (create_access_token svc2 e) (create_refresh_token svc2 e) ''bearer''),
            st\<lparr>db := (db st)(e \<mapsto> u\<lparr>refresh_token := Some (create_refresh_token svc2 e)\<rparr>)\<rparr>)
       \<and> (decode_refresh_token svc3 (create_refresh_token svc1 e) = Inr e
            \<and> create_refresh_token svc1 e \<noteq> create_refresh_token svc2 e \<longrightarrow>
          refresh_token_route svc3 (create_refresh_token svc1 e)
            (snd (login svc2 e p2 (snd (login svc1 e p1 st)))) =
           (Inl (HTTPException 401 ''Invalid refresh token''),
            st\<lparr>db := (db st)(e \<mapsto> u\<lparr>refresh_token := None\<rparr>)\<rparr>))
       \<and> (decode_refresh_token svc3 (create_refresh_token svc1 e) = Inr e
            \<and> create_refresh_token svc1 e = create_refresh_token svc2 e \<longrightarrow>
          refresh_token_route svc3 (create_refresh_token svc1 e)
            (snd (login svc2 e p2 (snd (login svc1 e p1 st)))) =
           (Inr (TokenModel (create_access_token svc3 e) (create_refresh_token svc3 e) ''bearer''),
            st\<lparr>db := (db st)(e \<mapsto> u\<lparr>refresh_token := Some (create_refresh_token svc3 e)\<rparr>)\<rparr>))
       \<and> (\<forall>err. decode_refresh_token svc3 (create_refresh_token svc1 e) = Inl err \<longrightarrow>
          refresh_token_route svc3 (create_refresh_token svc1 e)
            (snd (login svc2 e p2 (snd (login svc1 e p1 st)))) =
           (Inl err, snd (login svc2 e p2 (snd (login svc1 e p1 st)))))"
proof -
  let ?t1 = "create_refresh_token svc1 e" and ?t2 = "create_refresh_token svc2 e"
  let ?t3 = "create_refresh_token svc3 e"
  let ?u1 = "u\<lparr>refresh_token := Some ?t1\<rparr>" and ?u2 = "u\<lparr>refresh_token := Some ?t2\<rparr>"
  let ?st1 = "st\<lparr>db := (db st)(e \<mapsto> ?u1)\<rparr>" and ?st2 = "st\<lparr>db := (db st)(e \<mapsto> ?u2)\<rparr>"
  from assms(1,2) have mail: "email u = e" by (rule wf_db_email)
  have l1: "login svc1 e p1 st = (Inr (TokenModel (create_access_token svc1 e) ?t1 ''bearer''), ?st1)"
    using assms(1-4) by (rule login_success)
  have wf1: "wf_db (db ?st1)" using assms(1) mail by (simp add: wf_db_upd)
  have "login svc2 e p2 ?st1 =
      (Inr (TokenModel (create_access_token svc2 e) ?t2 ''bearer''),
       ?st1\<lparr>db := (db ?st1)(e \<mapsto> ?u1\<lparr>refresh_token := Some ?t2\<rparr>)\<rparr>)"
    using wf1 by (rule login_success) (simp_all add: assms)
  then have l2: "login svc2 e p2 ?st1 =
      (Inr (TokenModel (create_access_token svc2 e) ?t2 ''bearer''), ?st2)"
    by simp
  have l2': "login svc2 e p2 (snd (login svc1 e p1 st)) =
      (Inr (TokenModel (create_access_token svc2 e) ?t2 ''bearer''), ?st2)"
    by (simp add: l1 l2)
  have st2: "snd (login svc2 e p2 (snd (login svc1 e p1 st))) = ?st2"
    by (simp add: l2')
  have wf2: "wf_db (db ?st2)" using assms(1) mail by (simp add: wf_db_upd)
  have look: "db ?st2 e = Some ?u2" by simp
  have stale: "refresh_token_route svc3 ?t1 ?st2 =
      (Inl (HTTPException 401 ''Invalid refresh token''),
       st\<lparr>db := (db st)(e \<mapsto> u\<lparr>refresh_token := None\<rparr>)\<rparr>)"
    if d: "decode_refresh_token svc3 ?t1 = Inr e" and n: "?t1 \<noteq> ?t2"
  proof -
    have "refresh_token ?u2 \<noteq> Some ?t1" using n by simp
    with wf2 look have "refresh_token_route svc3 ?t1 ?st2 =
      (Inl (HTTPException 401 ''Invalid refresh token''),
       ?st2\<lparr>db := (db ?st2)(e \<mapsto> ?u2\<lparr>refresh_token := None\<rparr>)\<rparr>)"
      using d by (rule refresh_mismatch)
    then show ?thesis by simp
  qed
  have same: "refresh_token_route svc3 ?t1 ?st2 =
      (Inr (TokenModel (create_access_token svc3 e) ?t3 ''bearer''),
       st\<lparr>db := (db st)(e \<mapsto> u\<lparr>refresh_token := Some ?t3\<rparr>)\<rparr>)"
    if d: "decode_refresh_token svc3 ?t1 = Inr e" and n: "?t1 = ?t2"
  proof -
    have "refresh_token ?u2 = Some ?t1" using n by simp
    with wf2 look have "refresh_token_route svc3 ?t1 ?st2 =
      (Inr (TokenModel (create_access_token svc3 e) ?t3 ''bearer''),
       ?st2\<lparr>db := (db ?st2)(e \<mapsto> ?u2\<lparr>refresh_token := Some ?t3\<rparr>)\<rparr>)"
      using d by (rule refresh_success)
    then show ?thesis by simp
  qed
  have rejected: "refresh_token_route svc3 ?t1 ?st2 = (Inl err, ?st2)"
    if "decode_refresh_token svc3 ?t1 = Inl err" for err
    using that by (rule refresh_decode_error)
  have c3: "decode_refresh_token svc3 ?t1 = Inr e \<and> ?t1 \<noteq> ?t2 \<longrightarrow>
      refresh_token_route svc3 ?t1 ?st2 =
        (Inl (HTTPException 401 ''Invalid refresh token''),
         st\<lparr>db := (db st)(e \<mapsto> u\<lparr>refresh_token := None\<rparr>)\<rparr>)"
    using stale by blast
  have c4: "decode_refresh_token svc3 ?t1 = Inr e \<and> ?t1 = ?t2 \<longrightarrow>
      refresh_token_route svc3 ?t1 ?st2 =
        (Inr (TokenModel (create_access_token svc3 e) ?t3 ''bearer''),
         st\<lparr>db := (db st)(e \<mapsto> u\<lparr>refresh_token := Some ?t3\<rparr>)\<rparr>)"
    using same by blast
  have c5: "\<forall>err. decode_refresh_token svc3 ?t1 = Inl err \<longrightarrow>
      refresh_token_route svc3 ?t1 ?st2 = (Inl err, ?st2)"
    using rejected by blast
  show ?thesis
    unfolding st2 by (rule conjI [OF l1 conjI [OF l2' conjI [OF c3 conjI [OF c4 c5]]]])
qed

text \<open>
  An instance: \<open>a@x.com\<close> logs in at moments \<open>1\<close> and \<open>2\<close>, and the first token is
  presented at moment \<open>3\<close>, once while it still decodes and once when the decoder
  rejects it.
\<close>

theorem refresh_after_second_login_witness:
  "refresh_token_route (service_at CHR ''3'' False) ''R1a@x.com'' after_two_logins
     = (Inl (HTTPException 401 ''Invalid refresh token''),
        st0\<lparr>db := (db st0)(''a@x.com'' \<mapsto> alice\<lparr>refresh_token := None\<rparr>)\<rparr>)
   \<and> db after_two_logins ''a@x.com'' = Some (alice\<lparr>refresh_token := Some ''R2a@x.com''\<rparr>)
   \<and> refresh_token_route (service_at CHR ''3'' True) ''R1a@x.com'' after_two_logins
     = (Inl (HTTPException 401 ''Could not validate credentials''), after_two_logins)"
proof -
  have c: "confirmed alice" by (simp add: alice_def)
  have v1: "verify_password (service_at CHR ''1'' False) ''pw'' (password alice)"
    by (simp add: verify_example alice_def)
  have v2: "verify_password (service_at CHR ''2'' False) ''pw'' (password alice)"
    by (simp add: verify_example alice_def)
  have d: "decode_refresh_token (service_at CHR ''3'' False) ''R1a@x.com'' = Inr ''a@x.com''"
    by (rule decode_example)
  have n: "''R1a@x.com'' \<noteq> ''R2a@x.com''"
    by simp
  note T = refresh_after_second_login [OF wf_db_st0 db_st0_alice c v1 v2,
      where ?svc3.0 = "service_at CHR ''3'' False",
      unfolded create_refresh_example create_access_example]
  have l2: "after_two_logins = st0\<lparr>db := (db st0)(''a@x.com'' \<mapsto> alice\<lparr>refresh_token := Some ''R2a@x.com''\<rparr>)\<rparr>"
    unfolding after_two_logins_def T [THEN conjunct2, THEN conjunct1] by simp
  have r: "refresh_token_route (service_at CHR ''3'' False) ''R1a@x.com'' after_two_logins
     = (Inl (HTTPException 401 ''Invalid refresh token''),
        st0\<lparr>db := (db st0)(''a@x.com'' \<mapsto> alice\<lparr>refresh_token := None\<rparr>)\<rparr>)"
    unfolding after_two_logins_def
    by (rule T [THEN conjunct2, THEN conjunct2, THEN conjunct1, rule_format]) (use d n in blast)
  note T' = refresh_after_second_login [OF wf_db_st0 db_st0_alice c v1 v2,
      where ?svc3.0 = "service_at CHR ''3'' True",
      unfolded create_refresh_example create_access_example]
  have dx: "decode_refresh_token (service_at CHR ''3'' True) ''R1a@x.com''
      = Inl (HTTPException 401 ''Could not validate credentials'')"
    by (simp add: service_at_def)
  have r': "refresh_token_route (service_at CHR ''3'' True) ''R1a@x.com'' after_two_logins
     = (Inl (HTTPException 401 ''Could not validate credentials''), after_two_logins)"
    unfolding after_two_logins_def
    by (rule T' [THEN conjunct2, THEN conjunct2, THEN conjunct2, THEN conjunct2, rule_format])
      (rule dx)
  show ?thesis
  proof (intro conjI)
    show "refresh_token_route (service_at CHR ''3'' False) ''R1a@x.com'' after_two_logins
     = (Inl (HTTPException 401 ''Invalid refresh token''),
        st0\<lparr>db := (db st0)(''a@x.com'' \<mapsto> alice\<lparr>refresh_token := None\<rparr>)\<rparr>)"
      by (rule r)
    show "db after_two_logins ''a@x.com'' = Some (alice\<lparr>refresh_token := Some ''R2a@x.com''\<rparr>)"
      unfolding l2 by simp
    show "refresh_token_route (service_at CHR ''3'' True) ''R1a@x.com'' after_two_logins
     = (Inl (HTTPException 401 ''Could not validate credentials''), after_two_logins)"
      by (rule r')
  qed
qed

subsection \<open>Refreshing twice with the same token\<close>

text \<open>
  C5 as stated, that the first refresh persists a different token and the second refresh
  with the original token is refused, does not hold: \<open>a@x.com\<close> has \<open>R1a@x.com\<close> stored,
  issued at moment \<open>1\<close>, and refreshes at that same moment. The service issues the same
  string again, lines 136 to 138 store it without comparing it with the presented token,
  and the second refresh with the original token passes the comparison of line 132 and
  returns a new pair.
\<close>

theorem replayed_refresh_token_accepted:
  "fst (refresh_token_route (service_at CHR ''1'' False) ''R1a@x.com'' st_logged_in)
     = Inr (TokenModel ''A1a@x.com'' ''R1a@x.com'' ''bearer'')
   \<and> db (snd (refresh_token_route (service_at CHR ''1'' False) ''R1a@x.com'' st_logged_in))
        ''a@x.com'' = Some (alice\<lparr>refresh_token := Some ''R1a@x.com''\<rparr>)
   \<and> fst (refresh_token_route (service_at CHR ''2'' False) ''R1a@x.com''
        (snd (refresh_token_route (service_at CHR ''1'' False) ''R1a@x.com'' st_logged_in)))
     = Inr (TokenModel ''A2a@x.com'' ''R2a@x.com'' ''bearer'')"
  by (simp add: refresh_token_route_def get_user_by_email_def update_token_def
      st_logged_in_def alice_def service_at_def Let_def)

text \<open>
  C5 as amended: let \<open>token\<close> be the refresh token stored on a user, decoding as a refresh
  token for that user at both calls. The first refresh with \<open>token\<close> succeeds, returns the
  pair the service issues and stores the issued refresh token on the user. The second
  refresh with the same \<open>token\<close> fails with 401 "Invalid refresh token" and leaves the
  stored token \<open>None\<close> when the issued token differs from \<open>token\<close>; when the service issued
  \<open>token\<close> itself again, the second refresh succeeds as the first did.
\<close>

theorem refresh_twice:
  assumes "wf_db (db st)" and "db st e = Some u" and "refresh_token u = Some token"
    and "decode_refresh_token svc token = Inr e"
    and "decode_refresh_token svc' token = Inr e"
  shows "refresh_token_route svc token st =
           (Inr (TokenModel (create_access_token svc e) (create_refresh_token svc e) ''bearer''),
            st\<lparr>db := (db st)(e \<mapsto> u\<lparr>refresh_token := Some (create_refresh_token svc e)\<rparr>)\<rparr>)
       \<and> (create_refresh_token svc e \<noteq> token \<longrightarrow>
          refresh_token_route svc' token (snd (refresh_token_route svc token st)) =
           (Inl (HTTPException 401 ''Invalid refresh token''),
            st\<lparr>db := (db st)(e \<mapsto> u\<lparr>refresh_token := None\<rparr>)\<rparr>))
       \<and> (create_refresh_token svc e = token \<longrightarrow>
          refresh_token_route svc' token (snd (refresh_token_route svc token st)) =
           (Inr (TokenModel (create_access_token svc' e) (create_refresh_token svc' e) ''bearer''),
            st\<lparr>db := (db st)(e \<mapsto> u\<lparr>refresh_token := Some (create_refresh_token svc' e)\<rparr>)\<rparr>))"
proof -
  let ?new = "create_refresh_token svc e" and ?new' = "create_refresh_token svc' e"
  let ?u1 = "u\<lparr>refresh_token := Some ?new\<rparr>"
  let ?st1 = "st\<lparr>db := (db st)(e \<mapsto> ?u1)\<rparr>"
  have first: "refresh_token_route svc token st =
      (Inr (TokenModel (create_access_token svc e) ?new ''bearer''), ?st1)"
    using assms(1-4) by (rule refresh_success)
  have st1: "snd (refresh_token_route svc token st) = ?st1"
    by (simp add: first)
  from assms(1,2) have "email u = e" by (rule wf_db_email)
  then have wf1: "wf_db (db ?st1)" using assms(1) by (simp add: wf_db_upd)
  have look: "db ?st1 e = Some ?u1" by simp
  have stale: "refresh_token_route svc' token ?st1 =
      (Inl (HTTPException 401 ''Invalid refresh token''),
       st\<lparr>db := (db st)(e \<mapsto> u\<lparr>refresh_token := None\<rparr>)\<rparr>)"
    if n: "?new \<noteq> token"
  proof -
    have "refresh_token ?u1 \<noteq> Some token" using n by simp
    with wf1 look have "refresh_token_route svc' token ?st1 =
      (Inl (HTTPException 401 ''Invalid refresh token''),
       ?st1\<lparr>db := (db ?st1)(e \<mapsto> ?u1\<lparr>refresh_token := None\<rparr>)\<rparr>)"
      using assms(5) by (rule refresh_mismatch)
    then show ?thesis by simp
  qed
  have again: "refresh_token_route svc' token ?st1 =
      (Inr (TokenModel (create_access_token svc' e) ?new' ''bearer''),
       st\<lparr>db := (db st)(e \<mapsto> u\<lparr>refresh_token := Some ?new'\<rparr>)\<rparr>)"
    if n: "?new = token"
  proof -
    have "refresh_token ?u1 = Some token" using n by simp
    with wf1 look have "refresh_token_route svc' token ?st1 =
      (Inr (TokenModel (create_access_token svc' e) ?new' ''bearer''),
       ?st1\<lparr>db := (db ?st1)(e \<mapsto> ?u1\<lparr>refresh_token := Some ?new'\<rparr>)\<rparr>)"
      using assms(5) by (rule refresh_success)
    then show ?thesis by simp
  qed
  have c2: "?new \<noteq> token \<longrightarrow>
      refresh_token_route svc' token ?st1 =
        (Inl (HTTPException 401 ''Invalid refresh token''),
         st\<lparr>db := (db st)(e \<mapsto> u\<lparr>refresh_token := None\<rparr>)\<rparr>)"
    using stale by blast
  have c3: "?new = token \<longrightarrow>
      refresh_token_route svc' token ?st1 =
        (Inr (TokenModel (create_access_token svc' e) ?new' ''bearer''),
         st\<lparr>db := (db st)(e \<mapsto> u\<lparr>refresh_token := Some ?new'\<rparr>)\<rparr>)"
    using again by blast
  show ?thesis
    unfolding st1 by (rule conjI [OF first conjI [OF c2 c3]])
qed

text \<open>
  An instance: \<open>a@x.com\<close> has \<open>R1a@x.com\<close> stored and presents it at moments \<open>2\<close> and \<open>3\<close>;
  and presents it at moments \<open>1\<close> and \<open>3\<close>, where the first refresh is issued the stored
  token again.
\<close>

theorem refresh_twice_witness:
  "refresh_token_route (service_at CHR ''2'' False) ''R1a@x.com'' st_logged_in =
     (Inr (TokenModel ''A2a@x.com'' ''R2a@x.com'' ''bearer''),
      st_logged_in\<lparr>db := (db st_logged_in)(''a@x.com'' \<mapsto> alice\<lparr>refresh_token := Some ''R2a@x.com''\<rparr>)\<rparr>)
   \<and> refresh_token_route (service_at CHR ''3'' False) ''R1a@x.com''
       (snd (refresh_token_route (service_at CHR ''2'' False) ''R1a@x.com'' st_logged_in)) =
     (Inl (HTTPException 401 ''Invalid refresh token''),
      st_logged_in\<lparr>db := (db st_logged_in)(''a@x.com'' \<mapsto> alice\<lparr>refresh_token := None\<rparr>)\<rparr>)
   \<and> refresh_token_route (service_at CHR ''3'' False) ''R1a@x.com''
       (snd (refresh_token_route (service_at CHR ''1'' False) ''R1a@x.com'' st_logged_in)) =
     (Inr (TokenModel ''A3a@x.com'' ''R3a@x.com'' ''bearer''),
      st_logged_in\<lparr>db := (db st_logged_in)(''a@x.com'' \<mapsto> alice\<lparr>refresh_token := Some ''R3a@x.com''\<rparr>)\<rparr>)"
proof -
  have s: "refresh_token (alice\<lparr>refresh_token := Some ''R1a@x.com''\<rparr>) = Some ''R1a@x.com''"
    by simp
  have d: "decode_refresh_token (service_at CHR ''2'' False) ''R1a@x.com'' = Inr ''a@x.com''"
    by (rule decode_example)
  have d': "decode_refresh_token (service_at CHR ''3'' False) ''R1a@x.com'' = Inr ''a@x.com''"
    by (rule decode_example)
  have n: "''R2a@x.com'' \<noteq> ''R1a@x.com''"
    by simp
  have u: "\<And>x. alice\<lparr>refresh_token := Some ''R1a@x.com''\<rparr>\<lparr>refresh_token := x\<rparr>
      = alice\<lparr>refresh_token := x\<rparr>"
    by simp
  note T = refresh_twice [OF wf_db_st_logged_in db_st_logged_in_alice s d d',
      unfolded create_refresh_example create_access_example u]
  have d1: "decode_refresh_token (service_at CHR ''1'' False) ''R1a@x.com'' = Inr ''a@x.com''"
    by (rule decode_example)
  note S = refresh_twice [OF wf_db_st_logged_in db_st_logged_in_alice s d1 d',
      unfolded create_refresh_example create_access_example u]
  show ?thesis
  proof (intro conjI)
    show "refresh_token_route (service_at CHR ''2'' False) ''R1a@x.com'' st_logged_in =
     (Inr (TokenModel ''A2a@x.com'' ''R2a@x.com'' ''bearer''),
      st_logged_in\<lparr>db := (db st_logged_in)(''a@x.com'' \<mapsto> alice\<lparr>refresh_token := Some ''R2a@x.com''\<rparr>)\<rparr>)"
      by (rule T [THEN conjunct1])
    show "refresh_token_route (service_at CHR ''3'' False) ''R1a@x.com''
       (snd (refresh_token_route (service_at CHR ''2'' False) ''R1a@x.com'' st_logged_in)) =
     (Inl (HTTPException 401 ''Invalid refresh token''),
      st_logged_in\<lparr>db := (db st_logged_in)(''a@x.com'' \<mapsto> alice\<lparr>refresh_token := None\<rparr>)\<rparr>)"
      by (rule T [THEN conjunct2, THEN conjunct1, rule_format]) (rule n)
    show "refresh_token_route (service_at CHR ''3'' False) ''R1a@x.com''
       (snd (refresh_token_route (service_at CHR ''1'' False) ''R1a@x.com'' st_logged_in)) =
     (Inr (TokenModel ''A3a@x.com'' ''R3a@x.com'' ''bearer''),
      st_logged_in\<lparr>db := (db st_logged_in)(''a@x.com'' \<mapsto> alice\<lparr>refresh_token := Some ''R3a@x.com''\<rparr>)\<rparr>)"
      by (rule S [THEN conjunct2, THEN conjunct2, rule_format]) (rule refl)
  qed
qed

subsection \<open>Login of an unconfirmed user\<close>

text \<open>
  C6: for a stored user whose \<open>confirmed\<close> flag is false, login fails with 401
  "Email not confirmed" whatever password is supplied and whatever the password check
  would answer, and the state is unchanged.
\<close>

theorem login_unconfirmed:
  assumes "db st e = Some u" and "\<not> confirmed u"
  shows "login svc e p st = (Inl (HTTPException 401 ''Email not confirmed''), st)"
  using assms by (simp add: login_def get_user_by_email_def)

text \<open>
  An instance: the unconfirmed \<open>b@x.com\<close>, once with the password that verifies and once
  with one that does not.
\<close>

theorem login_unconfirmed_witness:
  "login (service_at CHR ''1'' False) ''b@x.com'' ''pw'' st0
     = (Inl (HTTPException 401 ''Email not confirmed''), st0)
   \<and> login (service_at CHR ''1'' False) ''b@x.com'' ''wrong'' st0
     = (Inl (HTTPException 401 ''Email not confirmed''), st0)
   \<and> verify_password (service_at CHR ''1'' False) ''pw'' (password bob)
   \<and> \<not> verify_password (service_at CHR ''1'' False) ''wrong'' (password bob)"
proof -
  have c: "\<not> confirmed bob" by (simp add: bob_def)
  from login_unconfirmed [OF db_st0_bob c, of "service_at CHR ''1'' False" "''pw''"]
       login_unconfirmed [OF db_st0_bob c, of "service_at CHR ''1'' False" "''wrong''"]
  show ?thesis by (simp add: verify_example bob_def)
qed

subsection \<open>Confirming twice\<close>

text \<open>
  C7: let \<open>token\<close> decode as a confirmation token for a stored user, now and at a second
  call. If the user is already confirmed, the route returns "Your email is already
  confirmed" and the state is unchanged. If not, it returns "Email confirmed" and the
  only change is that the user's \<open>confirmed\<close> flag is true. In both cases a second call
  with the same token returns "Your email is already confirmed" and changes nothing.
\<close>

theorem confirm_idempotent:
  assumes "get_email_from_token svc token = Inr e"
    and "get_email_from_token svc' token = Inr e"
    and "db st e = Some u"
  shows "(confirmed u \<longrightarrow>
            confirmed_email svc token st = (Inr (Message ''Your email is already confirmed''), st))
       \<and> (\<not> confirmed u \<longrightarrow>
            confirmed_email svc token st =
              (Inr (Message ''Email confirmed''), st\<lparr>db := (db st)(e \<mapsto> u\<lparr>confirmed := True\<rparr>)\<rparr>))
       \<and> confirmed_email svc' token (snd (confirmed_email svc token st)) =
            (Inr (Message ''Your email is already confirmed''), snd (confirmed_email svc token st))"
  using assms
  by (simp add: confirmed_email_def get_user_by_email_def repository_confirmed_email_def)

text \<open>
  An instance: the unconfirmed \<open>b@x.com\<close> confirms twice, and the confirmed \<open>a@x.com\<close>
  confirms once.
\<close>

theorem confirm_idempotent_witness:
  "confirmed_email (service_at CHR ''1'' False) ''Eb@x.com'' st0 =
     (Inr (Message ''Email confirmed''),
      st0\<lparr>db := (db st0)(''b@x.com'' \<mapsto> bob\<lparr>confirmed := True\<rparr>)\<rparr>)
   \<and> confirmed_email (service_at CHR ''2'' False) ''Eb@x.com''
        (snd (confirmed_email (service_at CHR ''1'' False) ''Eb@x.com'' st0)) =
     (Inr (Message ''Your email is already confirmed''),
      st0\<lparr>db := (db st0)(''b@x.com'' \<mapsto> bob\<lparr>confirmed := True\<rparr>)\<rparr>)
   \<and> confirmed_email (service_at CHR ''1'' False) ''Ea@x.com'' st0 =
     (Inr (Message ''Your email is already confirmed''), st0)"
proof -
  have g: "\<And>s sub. get_email_from_token (service_at s False) (CHR ''E'' # sub) = Inr sub"
    by (simp add: service_at_def)
  have cb: "\<not> confirmed bob" by (simp add: bob_def)
  have ca: "confirmed alice" by (simp add: alice_def)
  note Tb = confirm_idempotent [OF g g db_st0_bob, of "CHR ''1''" "CHR ''2''"]
  note Ta = confirm_idempotent [OF g g db_st0_alice, of "CHR ''1''" "CHR ''2''"]
  have A: "confirmed_email (service_at CHR ''1'' False) ''Eb@x.com'' st0 =
     (Inr (Message ''Email confirmed''),
      st0\<lparr>db := (db st0)(''b@x.com'' \<mapsto> bob\<lparr>confirmed := True\<rparr>)\<rparr>)"
    using Tb cb by blast
  have B: "confirmed_email (service_at CHR ''2'' False) ''Eb@x.com''
        (snd (confirmed_email (service_at CHR ''1'' False) ''Eb@x.com'' st0)) =
     (Inr (Message ''Your email is already confirmed''),
      snd (confirmed_email (service_at CHR ''1'' False) ''Eb@x.com'' st0))"
    using Tb by blast
  have C: "confirmed_email (service_at CHR ''1'' False) ''Ea@x.com'' st0 =
     (Inr (Message ''Your email is already confirmed''), st0)"
    using Ta ca by blast
  have B': "confirmed_email (service_at CHR ''2'' False) ''Eb@x.com''
        (snd (confirmed_email (service_at CHR ''1'' False) ''Eb@x.com'' st0)) =
     (Inr (Message ''Your email is already confirmed''),
      st0\<lparr>db := (db st0)(''b@x.com'' \<mapsto> bob\<lparr>confirmed := True\<rparr>)\<rparr>)"
    by (rule trans [OF B]) (simp add: A)
  from A B' C show ?thesis by blast
qed

subsection \<open>Signup\<close>

text \<open>
  C8: signup fails with 409 "Account already exists" exactly when the email of the body
  is already stored, and then changes nothing. Otherwise it stores a new user whose
  password attribute is the hash the service computes from the plaintext (the plaintext
  is not passed on), unconfirmed and with no refresh token, returns that user with
  "User successfully created", and appends one \<open>send_email\<close> task to the queue. The task is
  only queued: the result is fixed before any task runs.
\<close>

theorem signup_conflict_or_create:
  "(fst (signup svc body base_url st) = Inl (HTTPException 409 ''Account already exists''))
      = (db st (body_email body) \<noteq> None)
   \<and> (db st (body_email body) \<noteq> None \<longrightarrow>
        signup svc body base_url st = (Inl (HTTPException 409 ''Account already exists''), st))
   \<and> (db st (body_email body) = None \<longrightarrow>
        signup svc body base_url st =
          (Inr (UserResponses
                  \<lparr>email = body_email body, username = body_username body,
                   password = get_password_hash svc (body_password body),
                   confirmed = False, refresh_token = None\<rparr>
                  ''User successfully created''),
           st\<lparr>db := (db st)(body_email body \<mapsto>
                  \<lparr>email = body_email body, username = body_username body,
                   password = get_password_hash svc (body_password body),
                   confirmed = False, refresh_token = None\<rparr>),
              background_tasks := background_tasks st @
                  [send_email (body_email body) (body_username body) base_url]\<rparr>))"
  by (auto simp: signup_def get_user_by_email_def create_user_def Let_def split: option.splits)

text \<open>
  An instance: the new address \<open>c@x.com\<close>, and the stored address \<open>a@x.com\<close>.
\<close>

theorem signup_conflict_or_create_witness:
  "signup (service_at CHR ''1'' False)
      \<lparr>body_username = ''carol'', body_email = ''c@x.com'', body_password = ''pw''\<rparr>
      ''http://host/'' st0 =
     (Inr (UserResponses
             \<lparr>email = ''c@x.com'', username = ''carol'', password = ''hash:pw'',
              confirmed = False, refresh_token = None\<rparr>
             ''User successfully created''),
      st0\<lparr>db := (db st0)(''c@x.com'' \<mapsto>
             \<lparr>email = ''c@x.com'', username = ''carol'', password = ''hash:pw'',
              confirmed = False, refresh_token = None\<rparr>),
          background_tasks := background_tasks st0 @
             [send_email ''c@x.com'' ''carol'' ''http://host/'']\<rparr>)
   \<and> signup (service_at CHR ''1'' False)
      \<lparr>body_username = ''mallory'', body_email = ''a@x.com'', body_password = ''pw''\<rparr>
      ''http://host/'' st0 =
     (Inl (HTTPException 409 ''Account already exists''), st0)"
proof -
  have n: "db st0 ''c@x.com'' = None" by (simp add: st0_def)
  from signup_conflict_or_create [of "service_at CHR ''1'' False"
         "\<lparr>body_username = ''carol'', body_email = ''c@x.com'', body_password = ''pw''\<rparr>"
         "''http://host/''" st0]
       signup_conflict_or_create [of "service_at CHR ''1'' False"
         "\<lparr>body_username = ''mallory'', body_email = ''a@x.com'', body_password = ''pw''\<rparr>"
         "''http://host/''" st0]
       n db_st0_alice
  show ?thesis by (simp add: service_at_def)
qed

subsection \<open>The \<open>confirmed\<close> flag never reverts\<close>

text \<open>
  C9: in a table keyed by email, a stored user who is confirmed is still stored and
  confirmed after any sequence of the five requests, whatever the service answers at
  each of them; and a single request other than confirm leaves the flag of every stored
  user as it was.
\<close>

theorem confirmed_monotone:
  assumes "wf_db (db st)" and "db st e = Some u"
  shows "(confirmed u \<longrightarrow> (\<exists>u'. db (run rs st) e = Some u' \<and> confirmed u'))
       \<and> ((\<forall>token. r \<noteq> Confirm token) \<longrightarrow>
            (\<exists>u'. db (snd (handle svc r st)) e = Some u' \<and> confirmed u' = confirmed u))"
  using run_confirmed [OF assms] handle_confirmed [OF assms, of svc r] by blast

text \<open>
  An instance: five requests about the confirmed \<open>a@x.com\<close>, and a login attempt of the
  unconfirmed \<open>b@x.com\<close>.
\<close>

theorem confirmed_monotone_witness:
  "map_option confirmed
     (db (run [(service_at CHR ''1'' False, Login ''a@x.com'' ''pw''),
               (service_at CHR ''2'' False, Refresh ''R0a@x.com''),
               (service_at CHR ''3'' False,
                  Signup \<lparr>body_username = ''mallory'', body_email = ''a@x.com'',
                          body_password = ''x''\<rparr> ''http://host/''),
               (service_at CHR ''4'' False, Confirm ''Ea@x.com''),
               (service_at CHR ''5'' False, Request_email ''a@x.com'' ''http://host/'')]
            st0) ''a@x.com'') = Some True
   \<and> map_option confirmed
       (db (snd (handle (service_at CHR ''1'' False) (Login ''b@x.com'' ''pw'') st0)) ''b@x.com'')
       = Some False"
proof -
  have ca: "confirmed alice" by (simp add: alice_def)
  have cb: "\<not> confirmed bob" by (simp add: bob_def)
  from confirmed_monotone [OF wf_db_st0 db_st0_alice,
         where rs = "[(service_at CHR ''1'' False, Login ''a@x.com'' ''pw''),
               (service_at CHR ''2'' False, Refresh ''R0a@x.com''),
               (service_at CHR ''3'' False,
                  Signup \<lparr>body_username = ''mallory'', body_email = ''a@x.com'',
                          body_password = ''x''\<rparr> ''http://host/''),
               (service_at CHR ''4'' False, Confirm ''Ea@x.com''),
               (service_at CHR ''5'' False, Request_email ''a@x.com'' ''http://host/'')]"] ca
  have a: "\<exists>u'. db (run [(service_at CHR ''1'' False, Login ''a@x.com'' ''pw''),
               (service_at CHR ''2'' False, Refresh ''R0a@x.com''),
               (service_at CHR ''3'' False,
                  Signup \<lparr>body_username = ''mallory'', body_email = ''a@x.com'',
                          body_password = ''x''\<rparr> ''http://host/''),
               (service_at CHR ''4'' False, Confirm ''Ea@x.com''),
               (service_at CHR ''5'' False, Request_email ''a@x.com'' ''http://host/'')]
            st0) ''a@x.com'' = Some u' \<and> confirmed u'"
    by blast
  from confirmed_monotone [OF wf_db_st0 db_st0_bob, where r = "Login ''b@x.com'' ''pw''"
         and svc = "service_at CHR ''1'' False"] cb
  have b: "\<exists>u'. db (snd (handle (service_at CHR ''1'' False) (Login ''b@x.com'' ''pw'') st0))
             ''b@x.com'' = Some u' \<and> \<not> confirmed u'"
    by simp
  from a b show ?thesis by auto
qed

subsection \<open>Refresh for a subject that is not stored\<close>

text \<open>
  C10: let the presented token decode as a refresh token for the subject \<open>e\<close>. If no
  user is stored under \<open>e\<close>, the route ends in \<open>AttributeError\<close> (line 132 reads
  \<open>user.refresh_token\<close> of \<open>None\<close>): it returns no token pair and raises no
  \<open>HTTPException\<close>, and the state is unchanged. If a user is stored under \<open>e\<close>, the route
  either returns a token pair or fails with 401 "Invalid refresh token".
\<close>

theorem refresh_absent_user:
  assumes "decode_refresh_token svc token = Inr e"
  shows "(db st e = None \<longrightarrow> refresh_token_route svc token st = (Inl AttributeError, st))
       \<and> (db st e \<noteq> None \<longrightarrow>
            ((\<exists>a r. fst (refresh_token_route svc token st) = Inr (TokenModel a r ''bearer''))
          \<or> fst (refresh_token_route svc token st) = Inl (HTTPException 401 ''Invalid refresh token'')))"
  using assms
  by (auto simp: refresh_token_route_def get_user_by_email_def Let_def split: if_splits)

text \<open>
  An instance: a token for the unregistered \<open>ghost@x.com\<close>, and the stored token of
  \<open>a@x.com\<close>.
\<close>

theorem refresh_absent_user_witness:
  "refresh_token_route (service_at CHR ''2'' False) ''R1ghost@x.com'' st0
     = (Inl AttributeError, st0)
   \<and> fst (refresh_token_route (service_at CHR ''2'' False) ''R1a@x.com'' st_logged_in)
     = Inr (TokenModel ''A2a@x.com'' ''R2a@x.com'' ''bearer'')"
proof -
  have d: "\<And>sub. decode_refresh_token (service_at CHR ''2'' False) (CHR ''R'' # CHR ''1'' # sub) = Inr sub"
    by (rule decode_example)
  have t: "fst (refresh_token_route (service_at CHR ''2'' False) ''R1a@x.com'' st_logged_in)
     = Inr (TokenModel ''A2a@x.com'' ''R2a@x.com'' ''bearer'')"
    by (simp add: refresh_token_route_def get_user_by_email_def st_logged_in_def service_at_def
        Let_def)
  from refresh_absent_user [OF d [of "''ghost@x.com''"], where st = st0] db_st0_ghost t
  show ?thesis by simp
qed

end
